theory Spec2Isabelle
  imports Main "HOL-Library.Word"
begin

section \<open>Dynamic values of the host environment\<close>

text \<open>
  The casters of \<^verbatim>\<open>pydip.h\<close> receive a \<^verbatim>\<open>pybind11::handle\<close>: a possibly null
  pointer to a Python object. Objects are modelled by their built-in type and value; an
  instance of a subclass of a built-in type is identified with the value of its base type,
  except \<^verbatim>\<open>bool\<close>, which Python derives from \<^verbatim>\<open>int\<close> and which the casters
  distinguish; \<open>PyOther\<close> stands for an object of any other type, which is no number,
  no string, no sequence and no slice. A C++ \<^verbatim>\<open>double\<close> is its IEEE-754 binary64 bit
  pattern. \<^verbatim>\<open>dip::sint\<close> and \<^verbatim>\<open>dip::uint\<close> are \<^verbatim>\<open>std::ptrdiff_t\<close> and
  \<^verbatim>\<open>std::size_t\<close>, 64 bits wide on the platforms the library is built for.
\<close>

type_synonym dfloat = "64 word"
type_synonym dcomplex = "dfloat \<times> dfloat"
type_synonym dip_sint = "64 word"
type_synonym dip_uint = "64 word"

datatype pyobj =
    PyNone
  | PyBool bool
  | PyLong int
  | PyFloat dfloat
  | PyComplex dfloat dfloat
  | PyStr string
  | PyBytes string
  | PyList "pyobj list"
  | PyTuple "pyobj list"
  | PySlice pyobj pyobj pyobj
  | PyOther nat

type_synonym handle = "pyobj option"

text \<open>
  A \<^verbatim>\<open>load\<close> either throws (\<open>Inl\<close>), returns \<^verbatim>\<open>false\<close> (\<open>Inr None\<close>, the
  caster's "no match") or returns \<^verbatim>\<open>true\<close> with the caster's \<^verbatim>\<open>value\<close> set
  (\<open>Inr (Some v)\<close>).
\<close>

datatype error = cast_error | ParameterError | RunTimeError string

type_synonym 'a loaded = "error + 'a option"

subsection \<open>Type checks of the CPython API\<close>

text \<open>
  Modelled from the spec: the type checks are macros of the CPython headers, outside
  \<^verbatim>\<open>pydip.h\<close>. Each is true of the objects of the built-in type it names (the spec's
  boolean, integer, float, complex, text string and list).
\<close>

fun PyNone_Check :: "pyobj \<Rightarrow> bool" where
  "PyNone_Check PyNone = True"
| "PyNone_Check _ = False"

fun PyBool_Check :: "pyobj \<Rightarrow> bool" where
  "PyBool_Check (PyBool _) = True"
| "PyBool_Check _ = False"

text \<open>\<^verbatim>\<open>PYBIND11_LONG_CHECK\<close> is \<^verbatim>\<open>PyLong_Check\<close>: true of \<^verbatim>\<open>int\<close> and of its
  subclass \<^verbatim>\<open>bool\<close>.\<close>

fun PYBIND11_LONG_CHECK :: "pyobj \<Rightarrow> bool" where
  "PYBIND11_LONG_CHECK (PyLong _) = True"
| "PYBIND11_LONG_CHECK (PyBool _) = True"
| "PYBIND11_LONG_CHECK _ = False"

fun PyFloat_Check :: "pyobj \<Rightarrow> bool" where
  "PyFloat_Check (PyFloat _) = True"
| "PyFloat_Check _ = False"

fun PyComplex_Check :: "pyobj \<Rightarrow> bool" where
  "PyComplex_Check (PyComplex _ _) = True"
| "PyComplex_Check _ = False"

fun PyList_Check :: "pyobj \<Rightarrow> bool" where
  "PyList_Check (PyList _) = True"
| "PyList_Check _ = False"

fun PyUnicode_Check :: "pyobj \<Rightarrow> bool" where
  "PyUnicode_Check (PyStr _) = True"
| "PyUnicode_Check _ = False"

fun PYBIND11_BYTES_CHECK :: "pyobj \<Rightarrow> bool" where
  "PYBIND11_BYTES_CHECK (PyBytes _) = True"
| "PYBIND11_BYTES_CHECK _ = False"

subsection \<open>Scalar conversions of the binding library\<close>

text \<open>
  Modelled from the spec: \<^verbatim>\<open>handle::cast<T>()\<close> and the scalar casters behind it
  belong to the binding library (\<^verbatim>\<open>pybind11/cast.h\<close>) and rest on the CPython API,
  both outside \<^verbatim>\<open>pydip.h\<close>. The spec fixes that a value of the tag's own dynamic
  type converts to itself, that an integer converts to float and that a text string
  converts to no number; the remaining cases follow the library's casters with implicit
  conversion enabled. All definitions of this subsection belong to this model.
\<close>

definition fits_ssize_t :: "int \<Rightarrow> bool" where
  "fits_ssize_t n \<longleftrightarrow> - (2 ^ 63) \<le> n \<and> n < 2 ^ 63"

text \<open>The number of binary digits of a positive integer.\<close>

function bit_length :: "int \<Rightarrow> nat" where
  "bit_length n = (if n \<le> 0 then 0 else Suc (bit_length (n div 2)))"
  by pat_completeness auto
termination
  by (relation "measure nat") auto

declare bit_length.simps [simp del]

text \<open>
  \<^verbatim>\<open>PyLong_AsDouble\<close>: the nearest double, ties to even; \<open>None\<close> is the
  \<^verbatim>\<open>OverflowError\<close> of an integer beyond the doubles. With \<open>k\<close> the number of
  digits of \<open>\<bar>n\<bar>\<close>, \<open>q\<close> is the 53-bit significand and \<open>e\<close> the exponent.
\<close>

definition PyLong_AsDouble :: "int \<Rightarrow> dfloat option" where
  "PyLong_AsDouble n =
     (if n = 0 then Some 0
      else
        let m = \<bar>n\<bar>;
            k = bit_length m;
            sh = k - 53;
            q0 = (if k \<le> 53 then m * 2 ^ (53 - k) else m div 2 ^ sh);
            r = (if k \<le> 53 then 0 else m mod 2 ^ sh);
            half = (if k \<le> 53 then 1 else 2 ^ (sh - 1));
            q1 = (if r > half \<or> (r = half \<and> odd q0) then q0 + 1 else q0);
            q = (if q1 = 2 ^ 53 then 2 ^ 52 else q1);
            e = (if q1 = 2 ^ 53 then k else k - 1)
        in if e > 1023 then None
           else Some (word_of_int
                  ((if n < 0 then 2 ^ 63 else 0) + (int e + 1023) * 2 ^ 52 + (q - 2 ^ 52))))"

text \<open>A double is non-zero unless all bits below the sign bit are clear.\<close>

definition dfloat_nonzero :: "dfloat \<Rightarrow> bool" where
  "dfloat_nonzero f \<longleftrightarrow> take_bit 63 f \<noteq> 0"

text \<open>\<open>load_T\<close> is \<^verbatim>\<open>type_caster<T>::load(src, true)\<close>, with \<open>None\<close> for "no match".\<close>

fun load_bool :: "pyobj \<Rightarrow> bool option" where
  "load_bool (PyBool b) = Some b"
| "load_bool PyNone = Some False"
| "load_bool (PyLong n) = Some (n \<noteq> 0)"
| "load_bool (PyFloat f) = Some (dfloat_nonzero f)"
| "load_bool (PyComplex re im) = Some (dfloat_nonzero re \<or> dfloat_nonzero im)"
| "load_bool _ = None"

fun load_sint :: "pyobj \<Rightarrow> dip_sint option" where
  "load_sint (PyLong n) = (if fits_ssize_t n then Some (word_of_int n) else None)"
| "load_sint (PyBool b) = Some (if b then 1 else 0)"
| "load_sint _ = None"

fun load_dfloat :: "pyobj \<Rightarrow> dfloat option" where
  "load_dfloat (PyFloat f) = Some f"
| "load_dfloat (PyLong n) = PyLong_AsDouble n"
| "load_dfloat (PyBool b) = PyLong_AsDouble (if b then 1 else 0)"
| "load_dfloat _ = None"

fun load_dcomplex :: "pyobj \<Rightarrow> dcomplex option" where
  "load_dcomplex (PyComplex re im) = Some (re, im)"
| "load_dcomplex v = map_option (\<lambda>f. (f, 0)) (load_dfloat v)"

fun load_String :: "pyobj \<Rightarrow> string option" where
  "load_String (PyStr s) = Some s"
| "load_String (PyBytes s) = Some s"
| "load_String _ = None"

text \<open>\<^verbatim>\<open>src.cast<T>()\<close> throws \<^verbatim>\<open>cast_error\<close> where the caster does not load.\<close>

definition cast_to :: "(pyobj \<Rightarrow> 'a option) \<Rightarrow> pyobj \<Rightarrow> error + 'a" where
  "cast_to load_T src = (case load_T src of None \<Rightarrow> Inl cast_error | Some v \<Rightarrow> Inr v)"

text \<open>A \<^verbatim>\<open>load\<close> that stores \<open>f v\<close> for the converted \<open>v\<close> and returns \<^verbatim>\<open>true\<close>,
  unless the conversion threw.\<close>

definition store :: "('a \<Rightarrow> 'b) \<Rightarrow> error + 'a \<Rightarrow> 'b loaded" where
  "store f r = (case r of Inl e \<Rightarrow> Inl e | Inr v \<Rightarrow> Inr (Some (f v)))"

section \<open>Sample\<close>

text \<open>
  Modelled from the spec: \<^verbatim>\<open>dip::DataType\<close> is declared in
  \<^verbatim>\<open>diplib/library/datatype.h\<close>, outside \<^verbatim>\<open>pydip.h\<close>. The spec describes a closed
  enumeration of numeric representations (binary, signed and unsigned integer widths,
  float widths, complex widths).
\<close>

datatype DataType =
    DT_BIN
  | DT_UINT8 | DT_SINT8 | DT_UINT16 | DT_SINT16
  | DT_UINT32 | DT_SINT32 | DT_UINT64 | DT_SINT64
  | DT_SFLOAT | DT_DFLOAT
  | DT_SCOMPLEX | DT_DCOMPLEX

text \<open>
  Modelled from the spec: \<^verbatim>\<open>dip::Image::Sample\<close> is declared in
  \<^verbatim>\<open>diplib/library/image.h\<close>, outside \<^verbatim>\<open>pydip.h\<close>. The spec's Sample is a tagged value holding exactly one of a
  boolean, a signed 64-bit integer, a 64-bit float or a double-precision complex; each
  constructor below is the C++ constructor from a value of that type.
\<close>

datatype Sample =
    Sample_bin bool
  | Sample_sint dip_sint
  | Sample_dfloat dfloat
  | Sample_dcomplex dcomplex

fun Sample_DataType :: "Sample \<Rightarrow> DataType" where
  "Sample_DataType (Sample_bin _) = DT_BIN"
| "Sample_DataType (Sample_sint _) = DT_SINT64"
| "Sample_DataType (Sample_dfloat _) = DT_DFLOAT"
| "Sample_DataType (Sample_dcomplex _) = DT_DCOMPLEX"

text \<open>\<^verbatim>\<open>type_caster<dip::Image::Sample>::load\<close>\<close>

definition Sample_load :: "handle \<Rightarrow> Sample loaded" where
  "Sample_load src =
     (case src of
        None \<Rightarrow> Inr None
      | Some ob \<Rightarrow>
          if PyBool_Check ob then store Sample_bin (cast_to load_bool ob)
          else if PYBIND11_LONG_CHECK ob then store Sample_sint (cast_to load_sint ob)
          else if PyFloat_Check ob then store Sample_dfloat (cast_to load_dfloat ob)
          else if PyComplex_Check ob then store Sample_dcomplex (cast_to load_dcomplex ob)
          else Inr None)"

text \<open>
  \<^verbatim>\<open>type_caster<dip::Image::Sample>::cast\<close>: the Sample's own tag decides, binary first,
  then complex, then float, and an integer otherwise. The tests \<^verbatim>\<open>IsBinary\<close>,
  \<^verbatim>\<open>IsComplex\<close> and \<^verbatim>\<open>IsFloat\<close> of the tag hold of exactly the Samples built from a
  boolean, a complex and a double, and the conversion of such a Sample to that type gives
  the stored value.
\<close>

fun Sample_cast :: "Sample \<Rightarrow> pyobj" where
  "Sample_cast (Sample_bin b) = PyBool b"
| "Sample_cast (Sample_dcomplex c) = PyComplex (fst c) (snd c)"
| "Sample_cast (Sample_dfloat f) = PyFloat f"
| "Sample_cast (Sample_sint i) = PyLong (sint i)"

section \<open>Pixel\<close>

text \<open>
  Modelled from the spec: \<^verbatim>\<open>dip::Image::Pixel\<close> is declared in
  \<^verbatim>\<open>diplib/library/image.h\<close>, outside \<^verbatim>\<open>pydip.h\<close>. The spec's Pixel is an ordered sequence of Sample values of one
  tag; \<open>Pixel_of_Sample\<close> is the C++ constructor from a Sample.
\<close>

record Pixel =
  dataType :: DataType
  samples :: "Sample list"

definition Pixel_of_Sample :: "Sample \<Rightarrow> Pixel" where
  "Pixel_of_Sample s = \<lparr>dataType = Sample_DataType s, samples = [s]\<rparr>"

text \<open>\<^verbatim>\<open>reinterpret_borrow<py::list>\<close>: the items of a list object.\<close>

fun list_items :: "pyobj \<Rightarrow> pyobj list" where
  "list_items (PyList xs) = xs"
| "list_items _ = []"

text \<open>
  The loop \<^verbatim>\<open>for( auto in : src ) { *it = in.cast<T>(); ++it; }\<close>: every item is cast to
  \<open>T\<close> and assigned to the next sample, in order; the first cast that throws ends it.
\<close>

fun fill :: "('a \<Rightarrow> Sample) \<Rightarrow> (pyobj \<Rightarrow> 'a option) \<Rightarrow> pyobj list \<Rightarrow> error + Sample list" where
  "fill mk load_T [] = Inr []"
| "fill mk load_T (x # xs) =
     (case cast_to load_T x of
        Inl e \<Rightarrow> Inl e
      | Inr v \<Rightarrow> (case fill mk load_T xs of Inl e \<Rightarrow> Inl e | Inr ss \<Rightarrow> Inr (mk v # ss)))"

text \<open>\<^verbatim>\<open>type_caster<dip::Image::Pixel>::load\<close>\<close>

definition Pixel_load :: "handle \<Rightarrow> Pixel loaded" where
  "Pixel_load src =
     (case src of
        None \<Rightarrow> Inr None
      | Some ob \<Rightarrow>
          if PyList_Check ob then
            (let list = list_items ob; n = length list in
             if n = 0 then Inr None
             else if PyBool_Check (list ! 0) then
               store (\<lambda>ss. \<lparr>dataType = DT_BIN, samples = ss\<rparr>) (fill Sample_bin load_bool list)
             else if PYBIND11_LONG_CHECK (list ! 0) then
               store (\<lambda>ss. \<lparr>dataType = DT_SINT64, samples = ss\<rparr>) (fill Sample_sint load_sint list)
             else if PyFloat_Check (list ! 0) then
               store (\<lambda>ss. \<lparr>dataType = DT_DFLOAT, samples = ss\<rparr>) (fill Sample_dfloat load_dfloat list)
             else if PyComplex_Check (list ! 0) then
               store (\<lambda>ss. \<lparr>dataType = DT_DCOMPLEX, samples = ss\<rparr>)
                 (fill Sample_dcomplex load_dcomplex list)
             else Inr None)
          else
            (case Sample_load src of
               Inl e \<Rightarrow> Inl e
             | Inr None \<Rightarrow> Inr None
             | Inr (Some s) \<Rightarrow> Inr (Some (Pixel_of_Sample s))))"

section \<open>Range\<close>

text \<open>
  Modelled from the spec: \<^verbatim>\<open>dip::Range\<close> is declared in \<^verbatim>\<open>diplib/library/types.h\<close>,
  outside \<^verbatim>\<open>pydip.h\<close>. The spec's Range is a signed start, a signed stop and an unsigned step;
  \<open>Range_single\<close> is the constructor from one index.
\<close>

record Range =
  start :: dip_sint
  stop :: dip_sint
  step :: dip_uint

definition Range_single :: "dip_sint \<Rightarrow> Range" where
  "Range_single i = \<lparr>start = i, stop = i, step = 1\<rparr>"

text \<open>
  Modelled from the spec: \<^verbatim>\<open>PyLong_AsSsize_t\<close> belongs to the CPython API, outside
  \<^verbatim>\<open>pydip.h\<close>; it reads the spec's integer component of a slice. For an integer beyond
  \<^verbatim>\<open>Py_ssize_t\<close> it returns -1 (and leaves an \<^verbatim>\<open>OverflowError\<close> pending in the
  interpreter, which the caster does not look at). The caster calls it only on objects
  that pass \<^verbatim>\<open>PYBIND11_LONG_CHECK\<close>.
\<close>

fun PyLong_AsSsize_t :: "pyobj \<Rightarrow> dip_sint" where
  "PyLong_AsSsize_t (PyLong n) = (if fits_ssize_t n then word_of_int n else - 1)"
| "PyLong_AsSsize_t (PyBool b) = (if b then 1 else 0)"
| "PyLong_AsSsize_t _ = - 1"

text \<open>The three components of the slice, each with its early \<^verbatim>\<open>return false\<close> as
  \<open>None\<close>; start and stop read the step as it is before its sign is dropped.\<close>

definition slice_step :: "pyobj \<Rightarrow> dip_sint option" where
  "slice_step p =
     (if PyNone_Check p then Some 1
      else if PYBIND11_LONG_CHECK p then Some (PyLong_AsSsize_t p)
      else None)"

definition slice_start :: "dip_sint \<Rightarrow> pyobj \<Rightarrow> dip_sint option" where
  "slice_start stp p =
     (if PyNone_Check p then Some (if sint stp < 0 then - 1 else 0)
      else if PYBIND11_LONG_CHECK p then Some (PyLong_AsSsize_t p)
      else None)"

definition slice_stop :: "dip_sint \<Rightarrow> pyobj \<Rightarrow> dip_sint option" where
  "slice_stop stp p =
     (if PyNone_Check p then Some (if sint stp < 0 then 0 else - 1)
      else if PYBIND11_LONG_CHECK p then Some (PyLong_AsSsize_t p)
      else None)"

text \<open>\<^verbatim>\<open>type_caster<dip::Range>::load\<close>. The negation \<^verbatim>\<open>step = -step\<close> is two's
  complement negation; the cast to \<^verbatim>\<open>dip::uint\<close> keeps the bits.\<close>

definition Range_load :: "handle \<Rightarrow> Range loaded" where
  "Range_load src =
     (case src of
        None \<Rightarrow> Inr None
      | Some ob \<Rightarrow>
          (case ob of
             PySlice p_start p_stop p_step \<Rightarrow>
               (case slice_step p_step of
                  None \<Rightarrow> Inr None
                | Some stp \<Rightarrow>
                    (case slice_start stp p_start of
                       None \<Rightarrow> Inr None
                     | Some sta \<Rightarrow>
                         (case slice_stop stp p_stop of
                            None \<Rightarrow> Inr None
                          | Some sto \<Rightarrow>
                              Inr (Some \<lparr>start = sta, stop = sto,
                                         step = (if sint stp < 0 then - stp else stp)\<rparr>))))
           | _ \<Rightarrow>
               if PYBIND11_LONG_CHECK ob then store Range_single (cast_to load_sint ob)
               else Inr None))"

text \<open>\<^verbatim>\<open>type_caster<dip::Range>::cast\<close>: a slice of three integers, the step read as a
  signed integer.\<close>

definition Range_cast :: "Range \<Rightarrow> pyobj" where
  "Range_cast r = PySlice (PyLong (sint (start r))) (PyLong (sint (stop r))) (PyLong (sint (step r)))"

section \<open>DataType and tensor shape names\<close>

text \<open>
  Modelled from the spec: the constructor of \<^verbatim>\<open>dip::DataType\<close> from a name and its
  \<^verbatim>\<open>Name()\<close> are declared in \<^verbatim>\<open>diplib/library/datatype.h\<close>, outside \<^verbatim>\<open>pydip.h\<close>.
  The spec gives every member a canonical name, looked up by exact match; a name that is
  not recognised is an error of the parser, which the caster lets through. The names are
  the library's.
\<close>

fun DataType_Name :: "DataType \<Rightarrow> string" where
  "DataType_Name DT_BIN = ''BIN''"
| "DataType_Name DT_UINT8 = ''UINT8''"
| "DataType_Name DT_SINT8 = ''SINT8''"
| "DataType_Name DT_UINT16 = ''UINT16''"
| "DataType_Name DT_SINT16 = ''SINT16''"
| "DataType_Name DT_UINT32 = ''UINT32''"
| "DataType_Name DT_SINT32 = ''SINT32''"
| "DataType_Name DT_UINT64 = ''UINT64''"
| "DataType_Name DT_SINT64 = ''SINT64''"
| "DataType_Name DT_SFLOAT = ''SFLOAT''"
| "DataType_Name DT_DFLOAT = ''DFLOAT''"
| "DataType_Name DT_SCOMPLEX = ''SCOMPLEX''"
| "DataType_Name DT_DCOMPLEX = ''DCOMPLEX''"

definition DataType_of_String :: "string \<Rightarrow> error + DataType" where
  "DataType_of_String name =
     (if name = ''BIN'' then Inr DT_BIN
      else if name = ''UINT8'' then Inr DT_UINT8
      else if name = ''SINT8'' then Inr DT_SINT8
      else if name = ''UINT16'' then Inr DT_UINT16
      else if name = ''SINT16'' then Inr DT_SINT16
      else if name = ''UINT32'' then Inr DT_UINT32
      else if name = ''SINT32'' then Inr DT_SINT32
      else if name = ''UINT64'' then Inr DT_UINT64
      else if name = ''SINT64'' then Inr DT_SINT64
      else if name = ''SFLOAT'' then Inr DT_SFLOAT
      else if name = ''DFLOAT'' then Inr DT_DFLOAT
      else if name = ''SCOMPLEX'' then Inr DT_SCOMPLEX
      else if name = ''DCOMPLEX'' then Inr DT_DCOMPLEX
      else Inl ParameterError)"

text \<open>
  Modelled from the spec: \<^verbatim>\<open>dip::Tensor::Shape\<close>, \<^verbatim>\<open>ShapeFromString\<close> and
  \<^verbatim>\<open>ShapeToString\<close> are declared in \<^verbatim>\<open>diplib/library/tensor.h\<close>, outside
  \<^verbatim>\<open>pydip.h\<close>. The spec describes a closed enumeration of tensor layout categories
  under the same contract as DataType. The names are the library's.
\<close>

datatype Shape =
    COL_VECTOR
  | ROW_VECTOR
  | COL_MAJOR_MATRIX
  | ROW_MAJOR_MATRIX
  | DIAGONAL_MATRIX
  | SYMMETRIC_MATRIX
  | UPPER_TRIANG_MATRIX
  | LOWER_TRIANG_MATRIX

fun ShapeToString :: "Shape \<Rightarrow> string" where
  "ShapeToString COL_VECTOR = ''column vector''"
| "ShapeToString ROW_VECTOR = ''row vector''"
| "ShapeToString COL_MAJOR_MATRIX = ''column-major matrix''"
| "ShapeToString ROW_MAJOR_MATRIX = ''row-major matrix''"
| "ShapeToString DIAGONAL_MATRIX = ''diagonal matrix''"
| "ShapeToString SYMMETRIC_MATRIX = ''symmetric matrix''"
| "ShapeToString UPPER_TRIANG_MATRIX = ''upper triangular matrix''"
| "ShapeToString LOWER_TRIANG_MATRIX = ''lower triangular matrix''"

definition ShapeFromString :: "string \<Rightarrow> error + Shape" where
  "ShapeFromString name =
     (if name = ''column vector'' then Inr COL_VECTOR
      else if name = ''row vector'' then Inr ROW_VECTOR
      else if name = ''column-major matrix'' then Inr COL_MAJOR_MATRIX
      else if name = ''row-major matrix'' then Inr ROW_MAJOR_MATRIX
      else if name = ''diagonal matrix'' then Inr DIAGONAL_MATRIX
      else if name = ''symmetric matrix'' then Inr SYMMETRIC_MATRIX
      else if name = ''upper triangular matrix'' then Inr UPPER_TRIANG_MATRIX
      else if name = ''lower triangular matrix'' then Inr LOWER_TRIANG_MATRIX
      else Inl ParameterError)"

text \<open>
  \<^verbatim>\<open>type_caster<dip::DataType>\<close> and \<^verbatim>\<open>type_caster<dip::Tensor::Shape>\<close> are the same
  code around the two parsers: only a byte string or a text string is looked at, its text
  is handed to the parser, and what the parser throws is not caught.
\<close>

definition string_load :: "(string \<Rightarrow> error + 'a) \<Rightarrow> handle \<Rightarrow> 'a loaded" where
  "string_load parse src =
     (case src of
        None \<Rightarrow> Inr None
      | Some ob \<Rightarrow>
          if PYBIND11_BYTES_CHECK ob \<or> PyUnicode_Check ob then
            (case cast_to load_String ob of
               Inl e \<Rightarrow> Inl e
             | Inr name \<Rightarrow> store (\<lambda>v. v) (parse name))
          else Inr None)"

definition DataType_load :: "handle \<Rightarrow> DataType loaded" where
  "DataType_load = string_load DataType_of_String"

definition DataType_cast :: "DataType \<Rightarrow> pyobj" where
  "DataType_cast src = PyStr (DataType_Name src)"

definition Shape_load :: "handle \<Rightarrow> Shape loaded" where
  "Shape_load = string_load ShapeFromString"

definition Shape_cast :: "Shape \<Rightarrow> pyobj" where
  "Shape_cast src = PyStr (ShapeToString src)"

section \<open>DimensionArray\<close>

text \<open>
  Modelled from the spec: \<^verbatim>\<open>isinstance<sequence>\<close> and \<^verbatim>\<open>isinstance<str>\<close> belong
  to the binding library, outside \<^verbatim>\<open>pydip.h\<close>. The first is \<^verbatim>\<open>PySequence_Check\<close>,
  true of lists, tuples, text strings and byte strings; the second is true of text
  strings.
\<close>

fun isinstance_sequence :: "pyobj \<Rightarrow> bool" where
  "isinstance_sequence (PyList _) = True"
| "isinstance_sequence (PyTuple _) = True"
| "isinstance_sequence (PyStr _) = True"
| "isinstance_sequence (PyBytes _) = True"
| "isinstance_sequence _ = False"

fun isinstance_str :: "pyobj \<Rightarrow> bool" where
  "isinstance_str (PyStr _) = True"
| "isinstance_str _ = False"

text \<open>The items a Python iteration over a sequence yields: the characters of a text
  string are text strings of length one, the items of a byte string are integers.\<close>

fun sequence_items :: "pyobj \<Rightarrow> pyobj list" where
  "sequence_items (PyList xs) = xs"
| "sequence_items (PyTuple xs) = xs"
| "sequence_items (PyStr s) = map (\<lambda>c. PyStr [c]) s"
| "sequence_items (PyBytes s) = map (\<lambda>c. PyLong (of_char c)) s"
| "sequence_items _ = []"

text \<open>
  Modelled from the spec: \<^verbatim>\<open>list_caster<...>::load\<close> belongs to the binding library
  (\<^verbatim>\<open>pybind11/stl.h\<close>), outside \<^verbatim>\<open>pydip.h\<close>. By the spec a sequence or a text
  string is converted element-wise with the element type's own converter, preserving
  order and length, and the load fails if any element fails.
\<close>

fun load_each :: "(handle \<Rightarrow> 'a loaded) \<Rightarrow> pyobj list \<Rightarrow> 'a list loaded" where
  "load_each conv_load [] = Inr (Some [])"
| "load_each conv_load (x # xs) =
     (case conv_load (Some x) of
        Inl e \<Rightarrow> Inl e
      | Inr None \<Rightarrow> Inr None
      | Inr (Some v) \<Rightarrow>
          (case load_each conv_load xs of
             Inl e \<Rightarrow> Inl e
           | Inr None \<Rightarrow> Inr None
           | Inr (Some vs) \<Rightarrow> Inr (Some (v # vs))))"

definition list_caster_load :: "(handle \<Rightarrow> 'a loaded) \<Rightarrow> handle \<Rightarrow> 'a list loaded" where
  "list_caster_load conv_load src =
     (case src of None \<Rightarrow> Inr None | Some ob \<Rightarrow> load_each conv_load (sequence_items ob))"

text \<open>
  \<^verbatim>\<open>type_caster<dip::DimensionArray<Type>>::load\<close>, for the element caster
  \<^verbatim>\<open>value_conv\<close> of the template's \<^verbatim>\<open>Type\<close>. A null handle is no instance of anything.
\<close>

definition Array_load :: "(handle \<Rightarrow> 'a loaded) \<Rightarrow> handle \<Rightarrow> 'a list loaded" where
  "Array_load conv_load src =
     (if (case src of None \<Rightarrow> False | Some ob \<Rightarrow> isinstance_sequence ob \<or> isinstance_str ob)
      then list_caster_load conv_load src
      else
        (case conv_load src of
           Inl e \<Rightarrow> Inl e
         | Inr None \<Rightarrow> Inr None
         | Inr (Some v) \<Rightarrow> Inr (Some [v])))"

text \<open>An element caster: the binding library's caster of a signed integer.\<close>

definition sint_load :: "handle \<Rightarrow> dip_sint loaded" where
  "sint_load src = (case src of None \<Rightarrow> Inr None | Some ob \<Rightarrow> Inr (load_sint ob))"

text \<open>Another element caster: the binding library's caster of a string.\<close>

definition String_load :: "handle \<Rightarrow> string loaded" where
  "String_load src = (case src of None \<Rightarrow> Inr None | Some ob \<Rightarrow> Inr (load_String ob))"

section \<open>ImageOrPixel\<close>

text \<open>
  \<^verbatim>\<open>ImageOrPixel\<close>. The caster of \<^verbatim>\<open>dip::Image\<close> and the constructor of an Image from
  a Pixel are outside \<^verbatim>\<open>pydip.h\<close>; they are the parameters \<open>image_load\<close> and
  \<open>Image_of_Pixel\<close>.
\<close>

definition ImageOrPixel ::
  "(handle \<Rightarrow> 'img loaded) \<Rightarrow> (Pixel \<Rightarrow> 'img) \<Rightarrow> pyobj \<Rightarrow> error + 'img" where
  "ImageOrPixel image_load Image_of_Pixel obj =
     (case image_load (Some obj) of
        Inl e \<Rightarrow> Inl e
      | Inr (Some img) \<Rightarrow> Inr img
      | Inr None \<Rightarrow>
          (case Pixel_load (Some obj) of
             Inl e \<Rightarrow> Inl e
           | Inr (Some p) \<Rightarrow> Inr (Image_of_Pixel p)
           | Inr None \<Rightarrow> Inl (RunTimeError ''Cannot convert input to dip::Image'')))"

section \<open>The specification's vocabulary\<close>

text \<open>
  Following the spec's words, for comparison with the code: a component of a slice is
  unset or set to a signed integer.
\<close>

fun slice_component :: "dip_sint option \<Rightarrow> pyobj" where
  "slice_component None = PyNone"
| "slice_component (Some i) = PyLong (sint i)"

text \<open>
  Following the spec's words, for comparison with the code: the tag of a Pixel is selected
  by the dynamic type of the first element, in the priority order boolean, integer, float,
  complex; and every element goes through the scalar conversion of that tag.
\<close>

definition spec_first_element_tag :: "pyobj \<Rightarrow> DataType option" where
  "spec_first_element_tag x =
     (if PyBool_Check x then Some DT_BIN
      else if PYBIND11_LONG_CHECK x then Some DT_SINT64
      else if PyFloat_Check x then Some DT_DFLOAT
      else if PyComplex_Check x then Some DT_DCOMPLEX
      else None)"

fun spec_scalar_conversion :: "DataType \<Rightarrow> pyobj \<Rightarrow> Sample option" where
  "spec_scalar_conversion DT_BIN y = map_option Sample_bin (load_bool y)"
| "spec_scalar_conversion DT_SINT64 y = map_option Sample_sint (load_sint y)"
| "spec_scalar_conversion DT_DFLOAT y = map_option Sample_dfloat (load_dfloat y)"
| "spec_scalar_conversion DT_DCOMPLEX y = map_option Sample_dcomplex (load_dcomplex y)"
| "spec_scalar_conversion _ y = None"

section \<open>Auxiliary facts\<close>

subsection \<open>Machine integers\<close>

lemma fits_ssize_t_sint: "fits_ssize_t (sint (i :: 64 word))"
  using sint_ge [of i] sint_lt [of i] by (simp add: fits_ssize_t_def)

lemma load_sint_sint: "load_sint (PyLong (sint i)) = Some i"
  by (simp add: fits_ssize_t_sint)

lemma PyLong_AsSsize_t_sint: "PyLong_AsSsize_t (PyLong (sint i)) = i"
  by (simp add: fits_ssize_t_sint)

lemma uint_of_int_small:
  "0 \<le> k \<Longrightarrow> k < 2 ^ 64 \<Longrightarrow> uint (word_of_int k :: 64 word) = k"
  by (simp add: uint_word_of_int_eq take_bit_int_eq_self)

lemma magnitude: "uint (if sint s < 0 then - s else s) = \<bar>sint s\<bar>" for s :: "64 word"
proof -
  have lo: "- (2 ^ 63) \<le> sint s" and hi: "sint s < 2 ^ 63"
    using sint_ge [of s] sint_lt [of s] by simp_all
  show ?thesis
  proof (cases "sint s < 0")
    case True
    have "- s = word_of_int (- sint s)" by simp
    then have "uint (- s) = uint (word_of_int (- sint s) :: 64 word)" by simp
    also have "\<dots> = - sint s" using True lo by (intro uint_of_int_small) simp_all
    finally show ?thesis using True by simp
  next
    case False
    have "uint s = uint (word_of_int (sint s) :: 64 word)" by simp
    also have "\<dots> = sint s" using False hi by (intro uint_of_int_small) simp_all
    finally show ?thesis using False by simp
  qed
qed

lemma drop_sign: "(if sint s < 0 then - s else s) = word_of_int \<bar>sint s\<bar>" for s :: "64 word"
  by simp

lemma sint_of_small: "uint s < 2 ^ 63 \<Longrightarrow> sint s = uint s" for s :: "64 word"
proof -
  assume "uint s < 2 ^ 63"
  moreover have "- (2 ^ 63) \<le> uint s"
    by (rule order_trans [of _ 0]) simp_all
  ultimately have "signed_take_bit 63 (uint s) = uint s"
    by (intro signed_take_bit_int_eq_self) simp_all
  then show ?thesis by (simp add: sint_uint)
qed

lemma double_of_2: "PyLong_AsDouble 2 = Some 0x4000000000000000"
  by code_simp

lemma double_of_3: "PyLong_AsDouble 3 = Some 0x4008000000000000"
  by code_simp

subsection \<open>The loops\<close>

lemma fill_closed:
  "fill mk load_T xs =
     (if \<forall>y\<in>set xs. load_T y \<noteq> None then Inr (map (\<lambda>y. mk (the (load_T y))) xs)
      else Inl cast_error)"
  by (induction xs) (auto simp: cast_to_def split: option.splits)

lemma store_fill:
  "store (\<lambda>ss. \<lparr>dataType = dt, samples = ss\<rparr>) (fill mk load_T list) =
     (if \<forall>y\<in>set list. map_option mk (load_T y) \<noteq> None
      then Inr (Some \<lparr>dataType = dt,
                      samples = map (\<lambda>y. the (map_option mk (load_T y))) list\<rparr>)
      else Inl cast_error)"
  by (simp add: fill_closed store_def option.map_sel cong: map_cong)

lemma load_each_iff:
  "load_each conv_load xs = Inr (Some vs) \<longleftrightarrow>
   map (\<lambda>y. conv_load (Some y)) xs = map (\<lambda>v. Inr (Some v)) vs"
proof (induction xs arbitrary: vs)
  case Nil
  then show ?case by auto
next
  case (Cons x xs)
  show ?case
  proof (cases vs)
    case Nil
    then show ?thesis by (simp split: sum.splits option.splits)
  next
    case (Cons v vs')
    then show ?thesis using Cons.IH [of vs']
      by (auto split: sum.splits option.splits)
  qed
qed

lemma load_each_soft:
  "\<forall>y\<in>set xs. \<forall>e. conv_load (Some y) \<noteq> Inl e \<Longrightarrow>
   \<exists>y\<in>set xs. conv_load (Some y) = Inr None \<Longrightarrow>
   load_each conv_load xs = Inr None"
proof (induction xs)
  case Nil
  then show ?case by simp
next
  case (Cons x xs)
  show ?case
  proof (cases "conv_load (Some x)")
    case (Inl e)
    with Cons.prems(1) show ?thesis by simp
  next
    case (Inr r)
    show ?thesis
    proof (cases r)
      case None
      with Inr show ?thesis by simp
    next
      case (Some v)
      with Inr Cons.prems have "\<exists>y\<in>set xs. conv_load (Some y) = Inr None" by auto
      moreover from Cons.prems(1) have "\<forall>y\<in>set xs. \<forall>e. conv_load (Some y) \<noteq> Inl e" by simp
      ultimately have "load_each conv_load xs = Inr None" by (rule Cons.IH [rotated])
      with Inr Some show ?thesis by simp
    qed
  qed
qed

lemma Array_load_items:
  "ob = PyList items \<or> ob = PyTuple items
   \<or> ob = PyStr s \<and> items = map (\<lambda>c. PyStr [c]) s
   \<or> ob = PyBytes s \<and> items = map (\<lambda>c. PyLong (of_char c)) s \<Longrightarrow>
   Array_load conv_load (Some ob) = load_each conv_load items"
  by (auto simp: Array_load_def list_caster_load_def)

lemma Array_load_scalar:
  "(\<forall>xs. ob \<noteq> PyList xs) \<and> (\<forall>xs. ob \<noteq> PyTuple xs) \<and> (\<forall>t. ob \<noteq> PyStr t)
     \<and> (\<forall>t. ob \<noteq> PyBytes t) \<Longrightarrow>
   Array_load conv_load (Some ob) =
     (case conv_load (Some ob) of
        Inl e \<Rightarrow> Inl e
      | Inr None \<Rightarrow> Inr None
      | Inr (Some v) \<Rightarrow> Inr (Some [v]))"
  by (cases ob) (simp_all add: Array_load_def)

subsection \<open>What the casters throw\<close>

lemma Sample_load_throws: "Sample_load src = Inl e \<Longrightarrow> e = cast_error"
  by (auto simp: Sample_load_def store_def cast_to_def split: option.splits if_splits)

lemma fill_throws: "fill mk load_T xs = Inl e \<Longrightarrow> e = cast_error"
  by (simp add: fill_closed split: if_splits)

lemma Pixel_load_throws: "Pixel_load src = Inl e \<Longrightarrow> e = cast_error"
  by (auto simp: Pixel_load_def store_def Let_def
      split: option.splits if_splits sum.splits dest: fill_throws Sample_load_throws)

subsection \<open>The slice components\<close>

lemma slice_step_component:
  "slice_step (slice_component c) = Some (case c of None \<Rightarrow> 1 | Some s \<Rightarrow> s)"
  by (cases c) (simp_all add: slice_step_def PyLong_AsSsize_t_sint del: PyLong_AsSsize_t.simps)

lemma slice_start_component:
  "slice_start stp (slice_component a) =
     Some (case a of None \<Rightarrow> (if sint stp < 0 then - 1 else 0) | Some x \<Rightarrow> x)"
  by (cases a) (simp_all add: slice_start_def PyLong_AsSsize_t_sint del: PyLong_AsSsize_t.simps)

lemma slice_stop_component:
  "slice_stop stp (slice_component b) =
     Some (case b of None \<Rightarrow> (if sint stp < 0 then 0 else - 1) | Some x \<Rightarrow> x)"
  by (cases b) (simp_all add: slice_stop_def PyLong_AsSsize_t_sint del: PyLong_AsSsize_t.simps)

lemma Range_load_slice:
  "Range_load (Some (PySlice (slice_component a) (slice_component b) (slice_component c))) =
     Inr (Some
       \<lparr>start = (case a of
                   None \<Rightarrow> (if (case c of None \<Rightarrow> False | Some s \<Rightarrow> sint s < 0) then - 1 else 0)
                 | Some x \<Rightarrow> x),
        stop = (case b of
                  None \<Rightarrow> (if (case c of None \<Rightarrow> False | Some s \<Rightarrow> sint s < 0) then 0 else - 1)
                | Some x \<Rightarrow> x),
        step = (case c of None \<Rightarrow> 1 | Some s \<Rightarrow> word_of_int \<bar>sint s\<bar>)\<rparr>)"
  by (cases c)
    (simp_all add: Range_load_def slice_step_component slice_start_component slice_stop_component
       del: slice_component.simps)

lemma Range_load_index:
  "Range_load (Some (PyLong (sint i))) = Inr (Some \<lparr>start = i, stop = i, step = 1\<rparr>)"
  by (simp add: Range_load_def store_def cast_to_def Range_single_def load_sint_sint
      del: load_sint.simps)

subsection \<open>A list with a first element\<close>

lemma Pixel_load_items:
  "list \<noteq> [] \<Longrightarrow>
   Pixel_load (Some (PyList list)) =
     (case spec_first_element_tag (list ! 0) of
        None \<Rightarrow> Inr None
      | Some tag \<Rightarrow>
          if \<forall>y\<in>set list. spec_scalar_conversion tag y \<noteq> None
          then Inr (Some \<lparr>dataType = tag,
                          samples = map (\<lambda>y. the (spec_scalar_conversion tag y)) list\<rparr>)
          else Inl cast_error)"
proof -
  assume ne: "list \<noteq> []"
  let ?x = "list ! 0"
  consider (bin) "PyBool_Check ?x"
    | (int) "\<not> PyBool_Check ?x" "PYBIND11_LONG_CHECK ?x"
    | (float) "\<not> PyBool_Check ?x" "\<not> PYBIND11_LONG_CHECK ?x" "PyFloat_Check ?x"
    | (complex) "\<not> PyBool_Check ?x" "\<not> PYBIND11_LONG_CHECK ?x" "\<not> PyFloat_Check ?x"
        "PyComplex_Check ?x"
    | (other) "\<not> PyBool_Check ?x" "\<not> PYBIND11_LONG_CHECK ?x" "\<not> PyFloat_Check ?x"
        "\<not> PyComplex_Check ?x"
    by blast
  then show ?thesis
  proof cases
    case bin
    with ne show ?thesis
      by (simp add: Pixel_load_def spec_first_element_tag_def store_fill Let_def)
  next
    case int
    with ne show ?thesis
      by (simp add: Pixel_load_def spec_first_element_tag_def store_fill Let_def)
  next
    case float
    with ne show ?thesis
      by (simp add: Pixel_load_def spec_first_element_tag_def store_fill Let_def)
  next
    case complex
    with ne show ?thesis
      by (simp add: Pixel_load_def spec_first_element_tag_def store_fill Let_def)
  next
    case other
    with ne show ?thesis
      by (simp add: Pixel_load_def spec_first_element_tag_def Let_def)
  qed
qed

lemma Pixel_load_nonempty:
  "Pixel_load (Some (PyList (x # xs))) =
     (case spec_first_element_tag x of
        None \<Rightarrow> Inr None
      | Some tag \<Rightarrow>
          if \<forall>y\<in>set (x # xs). spec_scalar_conversion tag y \<noteq> None
          then Inr (Some \<lparr>dataType = tag,
                          samples = map (\<lambda>y. the (spec_scalar_conversion tag y)) (x # xs)\<rparr>)
          else Inl cast_error)"
  using Pixel_load_items [of "x # xs"] by (simp only: nth_Cons_0 list.distinct simp_thms)

section \<open>Array caster\<close>

text \<open>
  C5: on a list, a tuple, a text string (whose elements are its characters) or a byte
  string (whose elements are its bytes) the array caster succeeds exactly when every element
  converts, and then the array holds the converted elements in the order of the input and
  has the length of the input: a list of \<open>n\<close> items or a text string of \<open>n\<close> characters
  gives an array of length \<open>n\<close>. When some element does not convert (and none throws),
  the load returns false. On any other input the caster converts the input as one scalar:
  it fails or throws as that conversion does, and on success the array has this one
  element.
\<close>

theorem Array_load_spec:
  "(ob = PyList items \<or> ob = PyTuple items
      \<or> ob = PyStr s \<and> items = map (\<lambda>c. PyStr [c]) s
      \<or> ob = PyBytes s \<and> items = map (\<lambda>c. PyLong (of_char c)) s \<longrightarrow>
      (Array_load conv_load (Some ob) = Inr (Some vs) \<longleftrightarrow>
         map (\<lambda>y. conv_load (Some y)) items = map (\<lambda>v. Inr (Some v)) vs)
      \<and> (Array_load conv_load (Some ob) = Inr (Some vs) \<longrightarrow> length vs = length items)
      \<and> ((\<forall>y\<in>set items. \<forall>e. conv_load (Some y) \<noteq> Inl e)
           \<and> (\<exists>y\<in>set items. conv_load (Some y) = Inr None) \<longrightarrow>
          Array_load conv_load (Some ob) = Inr None))
   \<and> (Array_load conv_load (Some (PyStr s)) = Inr (Some vs) \<longrightarrow> length vs = length s)
   \<and> ((\<forall>xs. ob \<noteq> PyList xs) \<and> (\<forall>xs. ob \<noteq> PyTuple xs) \<and> (\<forall>t. ob \<noteq> PyStr t)
        \<and> (\<forall>t. ob \<noteq> PyBytes t) \<longrightarrow>
        Array_load conv_load (Some ob) =
          (case conv_load (Some ob) of
             Inl e \<Rightarrow> Inl e
           | Inr None \<Rightarrow> Inr None
           | Inr (Some v) \<Rightarrow> Inr (Some [v])))"
proof -
  have len: "length ws = length ys"
    if "map (\<lambda>y. conv_load (Some y)) ys = map (\<lambda>v. Inr (Some v)) ws" for ys ws
  proof -
    from that have "length (map (\<lambda>y. conv_load (Some y)) ys) =
        length (map (\<lambda>v. Inr (Some v) :: 'a loaded) ws)"
      by simp
    then show ?thesis by simp
  qed
  have seq: "(Array_load conv_load (Some ob) = Inr (Some vs) \<longleftrightarrow>
         map (\<lambda>y. conv_load (Some y)) items = map (\<lambda>v. Inr (Some v)) vs)
      \<and> (Array_load conv_load (Some ob) = Inr (Some vs) \<longrightarrow> length vs = length items)
      \<and> ((\<forall>y\<in>set items. \<forall>e. conv_load (Some y) \<noteq> Inl e)
           \<and> (\<exists>y\<in>set items. conv_load (Some y) = Inr None) \<longrightarrow>
          Array_load conv_load (Some ob) = Inr None)"
    if kind: "ob = PyList items \<or> ob = PyTuple items
      \<or> ob = PyStr s \<and> items = map (\<lambda>c. PyStr [c]) s
      \<or> ob = PyBytes s \<and> items = map (\<lambda>c. PyLong (of_char c)) s"
  proof -
    have eq: "Array_load conv_load (Some ob) = load_each conv_load items"
      using kind by (rule Array_load_items)
    show ?thesis
      unfolding eq load_each_iff
      using len [of items vs] load_each_soft [of items conv_load] by blast
  qed
  have str: "length vs = length s" if "Array_load conv_load (Some (PyStr s)) = Inr (Some vs)"
  proof -
    have "Array_load conv_load (Some (PyStr s)) = load_each conv_load (map (\<lambda>c. PyStr [c]) s)"
      by (rule Array_load_items) simp
    with that
    have "map (\<lambda>y. conv_load (Some y)) (map (\<lambda>c. PyStr [c]) s) = map (\<lambda>v. Inr (Some v)) vs"
      by (simp only: load_each_iff)
    then have "length vs = length (map (\<lambda>c. PyStr [c]) s)" by (rule len)
    then show ?thesis by simp
  qed
  from seq str Array_load_scalar [of ob conv_load] show ?thesis by blast
qed

text \<open>
  A list of three integers and a tuple of two load as arrays of these integers in order; the
  text string "ab" loads, with the string caster for its elements, as the array of "a" and
  "b"; a list with an element that is no integer is not loaded; the integer 7 alone loads
  as the array of 7.
\<close>

theorem Array_load_spec_witness:
  "Array_load sint_load (Some (PyList [PyLong 1, PyLong 2, PyLong 3])) = Inr (Some [1, 2, 3])
   \<and> Array_load sint_load (Some (PyTuple [PyLong 1, PyLong 2])) = Inr (Some [1, 2])
   \<and> Array_load String_load (Some (PyStr ''ab'')) = Inr (Some [''a'', ''b''])
   \<and> Array_load sint_load (Some (PyList [PyLong 1, PyStr ''x''])) = Inr None
   \<and> Array_load sint_load (Some (PyLong 7)) = Inr (Some [7])"
  using
    Array_load_spec [of "PyList [PyLong 1, PyLong 2, PyLong 3]" "[PyLong 1, PyLong 2, PyLong 3]"
      "[]" sint_load "[1, 2, 3]"]
    Array_load_spec [of "PyTuple [PyLong 1, PyLong 2]" "[PyLong 1, PyLong 2]" "[]" sint_load
      "[1, 2]"]
    Array_load_spec [of "PyStr ''ab''" "[PyStr ''a'', PyStr ''b'']" "''ab''" String_load
      "[''a'', ''b'']"]
    Array_load_spec [of "PyList [PyLong 1, PyStr ''x'']" "[PyLong 1, PyStr ''x'']" "[]" sint_load]
    Array_load_spec [of "PyLong 7" _ _ sint_load]
  by (simp add: sint_load_def String_load_def fits_ssize_t_def)

section \<open>Enumeration casters\<close>

text \<open>
  C7: for every member of the DataType enumeration and every member of the tensor shape
  enumeration, casting the member to its name and loading that name gives the member
  back; the parser inverts the naming on every member.
\<close>

theorem Enum_roundtrip:
  "DataType_load (Some (DataType_cast x)) = Inr (Some x)
   \<and> DataType_of_String (DataType_Name x) = Inr x
   \<and> Shape_load (Some (Shape_cast y)) = Inr (Some y)
   \<and> ShapeFromString (ShapeToString y) = Inr y"
proof -
  have d: "DataType_of_String (DataType_Name x) = Inr x"
    by (cases x) (simp_all add: DataType_of_String_def)
  have s: "ShapeFromString (ShapeToString y) = Inr y"
    by (cases y) (simp_all add: ShapeFromString_def)
  show ?thesis
    by (simp add: DataType_load_def DataType_cast_def Shape_load_def Shape_cast_def
        string_load_def cast_to_def store_def d s)
qed

section \<open>Range caster\<close>

text \<open>
  Within the signed 64-bit range the Range caster normalises as the spec says: an integer
  \<open>i\<close> loads as the Range from \<open>i\<close> to \<open>i\<close> with step 1. For a slice whose components
  are unset or signed 64-bit integers, an unset step becomes 1, an unset start becomes -1
  if the given step is negative and 0 otherwise, an unset stop becomes 0 if the given step
  is negative and -1 otherwise, and the step is stored as its magnitude, which the
  unsigned field holds without loss. The three slices of the spec load as stated.
  (For the most negative step the negation in the source overflows; the model takes the
  two's complement result, whose unsigned reading is the magnitude.)
\<close>

lemma Range_load_in_range:
  "Range_load (Some (PyLong (sint i))) = Inr (Some \<lparr>start = i, stop = i, step = 1\<rparr>)
   \<and> Range_load (Some (PySlice (slice_component a) (slice_component b) (slice_component c))) =
       Inr (Some
         \<lparr>start = (case a of
                     None \<Rightarrow> (if (case c of None \<Rightarrow> False | Some s \<Rightarrow> sint s < 0) then - 1 else 0)
                   | Some x \<Rightarrow> x),
          stop = (case b of
                    None \<Rightarrow> (if (case c of None \<Rightarrow> False | Some s \<Rightarrow> sint s < 0) then 0 else - 1)
                  | Some x \<Rightarrow> x),
          step = (case c of None \<Rightarrow> 1 | Some s \<Rightarrow> word_of_int \<bar>sint s\<bar>)\<rparr>)
   \<and> uint (word_of_int \<bar>sint (s :: dip_sint)\<bar> :: dip_uint) = \<bar>sint s\<bar>
   \<and> Range_load (Some (PySlice PyNone PyNone PyNone)) =
       Inr (Some \<lparr>start = 0, stop = - 1, step = 1\<rparr>)
   \<and> Range_load (Some (PySlice PyNone PyNone (PyLong (- 1)))) =
       Inr (Some \<lparr>start = - 1, stop = 0, step = 1\<rparr>)
   \<and> Range_load (Some (PySlice (PyLong 2) (PyLong 5) (PyLong 1))) =
       Inr (Some \<lparr>start = 2, stop = 5, step = 1\<rparr>)"
proof -
  have "uint (word_of_int \<bar>sint s\<bar> :: dip_uint) = \<bar>sint s\<bar>" for s :: dip_sint
    using magnitude [of s] by (simp only: drop_sign)
  moreover have "Range_load (Some (PySlice PyNone PyNone PyNone)) =
      Inr (Some \<lparr>start = 0, stop = - 1, step = 1\<rparr>)"
    by (simp add: Range_load_def slice_step_def slice_start_def slice_stop_def)
  moreover have "Range_load (Some (PySlice PyNone PyNone (PyLong (- 1)))) =
      Inr (Some \<lparr>start = - 1, stop = 0, step = 1\<rparr>)"
    by (simp add: Range_load_def slice_step_def slice_start_def slice_stop_def fits_ssize_t_def)
  moreover have "Range_load (Some (PySlice (PyLong 2) (PyLong 5) (PyLong 1))) =
      Inr (Some \<lparr>start = 2, stop = 5, step = 1\<rparr>)"
    by (simp add: Range_load_def slice_step_def slice_start_def slice_stop_def fits_ssize_t_def)
  ultimately show ?thesis
    using Range_load_index [of i] Range_load_slice [of a b c] by blast
qed

text \<open>
  C2: the normalisation of a slice fails on a component beyond the signed 64-bit range.
  The slice with start and stop unset and the step \<open>2\<^sup>6\<^sup>3\<close>, a non-negative step that the
  unsigned step field can hold, should load with start 0, stop -1 and that step. The
  caster takes the error value -1 of \<^verbatim>\<open>PyLong_AsSsize_t\<close> for the step: the load returns
  true with start -1, stop 0 and step 1, the Range of a negative step. On the same integer
  given alone the caster throws.
\<close>

theorem Range_load_unchecked_overflow:
  "Range_load (Some (PySlice PyNone PyNone (PyLong (2 ^ 63)))) =
     Inr (Some \<lparr>start = - 1, stop = 0, step = 1\<rparr>)
   \<and> Range_load (Some (PyLong (2 ^ 63))) = Inl cast_error"
  by (simp add: Range_load_def slice_step_def slice_start_def slice_stop_def fits_ssize_t_def
      store_def cast_to_def)

text \<open>
  C9: a Range whose step is below \<open>2\<^sup>6\<^sup>3\<close>, so that it is a signed integer as well, is
  cast to a slice with start, stop and step all set, and loading that slice gives the
  Range back, with the same start, stop and step.
\<close>

theorem Range_roundtrip:
  assumes "uint (step r) < 2 ^ 63"
  shows "Range_cast r =
           PySlice (PyLong (sint (start r))) (PyLong (sint (stop r))) (PyLong (uint (step r)))
         \<and> Range_load (Some (Range_cast r)) = Inr (Some r)"
proof -
  have st: "sint (step r) = uint (step r)" using assms by (rule sint_of_small)
  then have nonneg: "\<not> sint (step r) < 0" by simp
  have "Range_cast r =
      PySlice (slice_component (Some (start r))) (slice_component (Some (stop r)))
        (slice_component (Some (step r)))"
    by (simp add: Range_cast_def)
  then have "Range_load (Some (Range_cast r)) =
      Inr (Some \<lparr>start = start r, stop = stop r, step = word_of_int \<bar>sint (step r)\<bar>\<rparr>)"
    by (simp only: Range_load_slice option.case)
  also have "word_of_int \<bar>sint (step r)\<bar> = step r" using nonneg by simp
  finally have "Range_load (Some (Range_cast r)) = Inr (Some r)" by simp
  then show ?thesis by (simp add: Range_cast_def st)
qed

theorem Range_roundtrip_witness:
  "uint (step \<lparr>start = 2, stop = 5, step = 3\<rparr>) < 2 ^ 63
   \<and> Range_cast \<lparr>start = 2, stop = 5, step = 3\<rparr> = PySlice (PyLong 2) (PyLong 5) (PyLong 3)
   \<and> Range_load (Some (PySlice (PyLong 2) (PyLong 5) (PyLong 3))) =
       Inr (Some \<lparr>start = 2, stop = 5, step = 3\<rparr>)"
  using Range_roundtrip [of "\<lparr>start = 2, stop = 5, step = 3\<rparr>"]
  by (simp add: Range_cast_def)

section \<open>Sample caster\<close>

text \<open>
  C3: the Sample caster tries boolean, integer, float and complex in this order and the
  first type that matches decides the tag of the Sample. A boolean always loads as a
  binary Sample, although it passes the integer check as well; an integer, a float and a
  complex load as the Sample of their own tag; and the load returns false exactly when
  the input is of none of the four types.
\<close>

theorem Sample_load_dispatch:
  "(PyBool_Check v \<longrightarrow> (\<exists>b. Sample_load (Some v) = Inr (Some (Sample_bin b))))
   \<and> (\<forall>s. Sample_load (Some v) = Inr (Some s) \<longrightarrow>
         Sample_DataType s =
           (if PyBool_Check v then DT_BIN
            else if PYBIND11_LONG_CHECK v then DT_SINT64
            else if PyFloat_Check v then DT_DFLOAT
            else DT_DCOMPLEX))
   \<and> (Sample_load (Some v) = Inr None \<longleftrightarrow>
         \<not> (PyBool_Check v \<or> PYBIND11_LONG_CHECK v \<or> PyFloat_Check v \<or> PyComplex_Check v))
   \<and> Sample_load (Some (PyBool b)) = Inr (Some (Sample_bin b))
   \<and> Sample_load (Some (PyLong (sint i))) = Inr (Some (Sample_sint i))
   \<and> Sample_load (Some (PyFloat f)) = Inr (Some (Sample_dfloat f))
   \<and> Sample_load (Some (PyComplex re im)) = Inr (Some (Sample_dcomplex (re, im)))"
proof -
  have by_type: "Sample_load (Some (PyBool b)) = Inr (Some (Sample_bin b))"
    "Sample_load (Some (PyLong (sint i))) = Inr (Some (Sample_sint i))"
    "Sample_load (Some (PyFloat f)) = Inr (Some (Sample_dfloat f))"
    "Sample_load (Some (PyComplex re im)) = Inr (Some (Sample_dcomplex (re, im)))"
    by (simp_all add: Sample_load_def store_def cast_to_def load_sint_sint del: load_sint.simps)
  have "PyBool_Check v \<longrightarrow> (\<exists>b. Sample_load (Some v) = Inr (Some (Sample_bin b)))"
    by (cases v) (simp_all add: Sample_load_def store_def cast_to_def)
  moreover have "\<forall>s. Sample_load (Some v) = Inr (Some s) \<longrightarrow>
         Sample_DataType s =
           (if PyBool_Check v then DT_BIN
            else if PYBIND11_LONG_CHECK v then DT_SINT64
            else if PyFloat_Check v then DT_DFLOAT
            else DT_DCOMPLEX)"
    by (cases v) (auto simp: Sample_load_def store_def cast_to_def split: if_splits)
  moreover have "Sample_load (Some v) = Inr None \<longleftrightarrow>
         \<not> (PyBool_Check v \<or> PYBIND11_LONG_CHECK v \<or> PyFloat_Check v \<or> PyComplex_Check v)"
    by (cases v) (auto simp: Sample_load_def store_def cast_to_def split: if_splits)
  ultimately show ?thesis using by_type by blast
qed

theorem Sample_load_dispatch_witness:
  "PyBool_Check (PyBool True)
   \<and> PYBIND11_LONG_CHECK (PyBool True)
   \<and> Sample_load (Some (PyBool True)) = Inr (Some (Sample_bin True))
   \<and> Sample_DataType (Sample_bin True) = DT_BIN
   \<and> Sample_load (Some (PyStr ''x'')) = Inr None"
  using Sample_load_dispatch [of "PyBool True" True 0 0 0 0]
    Sample_load_dispatch [of "PyStr ''x''" True 0 0 0 0]
  by simp

text \<open>
  C6: casting a Sample and loading the result gives the Sample back, for each of the four
  tags. The cast picks the dynamic type by the tag: a binary Sample becomes a boolean, a
  complex one a complex, a float one a float and an integer one a signed integer.
  Equality is that of the stored values, a float by its bits.
\<close>

theorem Sample_roundtrip:
  "Sample_load (Some (Sample_cast s)) = Inr (Some s)
   \<and> Sample_cast (Sample_bin b) = PyBool b
   \<and> Sample_cast (Sample_dcomplex (re, im)) = PyComplex re im
   \<and> Sample_cast (Sample_dfloat f) = PyFloat f
   \<and> Sample_cast (Sample_sint i) = PyLong (sint i)"
  by (cases s)
    (simp_all add: Sample_load_def store_def cast_to_def load_sint_sint del: load_sint.simps)

section \<open>Pixel caster\<close>

text \<open>
  C8: an empty list is rejected at once: the load returns false and builds no Pixel.
\<close>

theorem Pixel_load_empty_list: "Pixel_load (Some (PyList [])) = Inr None"
  by (simp add: Pixel_load_def)

text \<open>
  C1: on a list with a first element the tag of the Pixel is selected by the dynamic type
  of the first element alone, in the priority order boolean, integer, float, complex (and
  the load returns false if the first element is of none of them). When every element,
  the first included, converts by the scalar conversion of that tag, the Pixel has that
  tag and holds the converted elements in the order of the list, as many as the list has;
  when some element does not convert, the load fails by throwing. A list of the integer 1,
  the string "x" and the integer 3 fails.
\<close>

theorem Pixel_load_list:
  "Pixel_load (Some (PyList (x # xs))) =
     (case spec_first_element_tag x of
        None \<Rightarrow> Inr None
      | Some tag \<Rightarrow>
          if \<forall>y\<in>set (x # xs). spec_scalar_conversion tag y \<noteq> None
          then Inr (Some \<lparr>dataType = tag,
                          samples = map (\<lambda>y. the (spec_scalar_conversion tag y)) (x # xs)\<rparr>)
          else Inl cast_error)
   \<and> (\<forall>p. Pixel_load (Some (PyList (x # xs))) = Inr (Some p) \<longrightarrow>
          Some (dataType p) = spec_first_element_tag x
          \<and> length (samples p) = length (x # xs))
   \<and> Pixel_load (Some (PyList [PyLong 1, PyStr ''x'', PyLong 3])) = Inl cast_error"
proof -
  have ex: "Pixel_load (Some (PyList [PyLong 1, PyStr ''x'', PyLong 3])) = Inl cast_error"
    by (simp add: Pixel_load_nonempty spec_first_element_tag_def)
  have "Some (dataType p) = spec_first_element_tag x \<and> length (samples p) = length (x # xs)"
    if "Pixel_load (Some (PyList (x # xs))) = Inr (Some p)" for p
    using that unfolding Pixel_load_nonempty
    by (auto split: option.splits if_splits)
  then show ?thesis using ex Pixel_load_nonempty [of x xs] by blast
qed

text \<open>
  The lists of the spec's examples: the float 1.0 followed by the integers 2 and 3 loads as
  a float Pixel of 1.0, 2.0 and 3.0, and the integers 1, 2 and 3 load as an integer Pixel.
\<close>

theorem Pixel_load_list_witness:
  "Pixel_load (Some (PyList [PyFloat 0x3FF0000000000000, PyLong 2, PyLong 3])) =
     Inr (Some \<lparr>dataType = DT_DFLOAT,
                samples = [Sample_dfloat 0x3FF0000000000000, Sample_dfloat 0x4000000000000000,
                           Sample_dfloat 0x4008000000000000]\<rparr>)
   \<and> Pixel_load (Some (PyList [PyLong 1, PyLong 2, PyLong 3])) =
     Inr (Some \<lparr>dataType = DT_SINT64, samples = [Sample_sint 1, Sample_sint 2, Sample_sint 3]\<rparr>)"
  using Pixel_load_list [of "PyFloat 0x3FF0000000000000" "[PyLong 2, PyLong 3]"]
    Pixel_load_list [of "PyLong 1" "[PyLong 2, PyLong 3]"]
  by (simp add: spec_first_element_tag_def double_of_2 double_of_3 fits_ssize_t_def)

text \<open>
  C10: only a list takes the multi-element path. Any other input goes to the Sample
  caster: the load fails or throws as the Sample caster does, and a scalar that the Sample
  caster loads becomes a Pixel of one element of the same tag. A tuple, whatever it
  holds, is therefore not loaded: the load returns false. A boolean, an integer, a float
  and a complex each load as the Pixel of that one sample.
\<close>

theorem Pixel_load_scalar:
  "(\<not> PyList_Check v \<longrightarrow>
      Pixel_load (Some v) =
        (case Sample_load (Some v) of
           Inl e \<Rightarrow> Inl e
         | Inr None \<Rightarrow> Inr None
         | Inr (Some s) \<Rightarrow> Inr (Some \<lparr>dataType = Sample_DataType s, samples = [s]\<rparr>)))
   \<and> (\<forall>s. Sample_load (Some v) = Inr (Some s) \<longrightarrow>
          Pixel_load (Some v) = Inr (Some \<lparr>dataType = Sample_DataType s, samples = [s]\<rparr>))
   \<and> Pixel_load (Some (PyTuple ys)) = Inr None
   \<and> Pixel_load (Some (PyBool b)) = Inr (Some \<lparr>dataType = DT_BIN, samples = [Sample_bin b]\<rparr>)
   \<and> Pixel_load (Some (PyLong (sint i))) =
       Inr (Some \<lparr>dataType = DT_SINT64, samples = [Sample_sint i]\<rparr>)
   \<and> Pixel_load (Some (PyFloat f)) =
       Inr (Some \<lparr>dataType = DT_DFLOAT, samples = [Sample_dfloat f]\<rparr>)
   \<and> Pixel_load (Some (PyComplex re im)) =
       Inr (Some \<lparr>dataType = DT_DCOMPLEX, samples = [Sample_dcomplex (re, im)]\<rparr>)"
proof -
  have a: "Pixel_load (Some v) =
        (case Sample_load (Some v) of
           Inl e \<Rightarrow> Inl e
         | Inr None \<Rightarrow> Inr None
         | Inr (Some s) \<Rightarrow> Inr (Some \<lparr>dataType = Sample_DataType s, samples = [s]\<rparr>))"
    if "\<not> PyList_Check v" for v
    using that by (simp add: Pixel_load_def Pixel_of_Sample_def split: sum.splits option.splits)
  have b: "\<not> PyList_Check v" if "Sample_load (Some v) = Inr (Some s)" for s
    using that by (cases v) (simp_all add: Sample_load_def)
  have c: "Pixel_load (Some (PyTuple ys)) = Inr None"
    by (simp add: a Sample_load_def)
  have d: "Pixel_load (Some (PyBool b)) =
      Inr (Some \<lparr>dataType = DT_BIN, samples = [Sample_bin b]\<rparr>)"
    "Pixel_load (Some (PyLong (sint i))) =
      Inr (Some \<lparr>dataType = DT_SINT64, samples = [Sample_sint i]\<rparr>)"
    "Pixel_load (Some (PyFloat f)) =
      Inr (Some \<lparr>dataType = DT_DFLOAT, samples = [Sample_dfloat f]\<rparr>)"
    "Pixel_load (Some (PyComplex re im)) =
      Inr (Some \<lparr>dataType = DT_DCOMPLEX, samples = [Sample_dcomplex (re, im)]\<rparr>)"
    by (simp_all add: a Sample_load_def store_def cast_to_def load_sint_sint
        del: load_sint.simps)
  have e: "Pixel_load (Some v) = Inr (Some \<lparr>dataType = Sample_DataType s, samples = [s]\<rparr>)"
    if "Sample_load (Some v) = Inr (Some s)" for s
    using a [OF b [OF that]] that by simp
  from a [of v] c d e show ?thesis by blast
qed

theorem Pixel_load_scalar_witness:
  "\<not> PyList_Check (PyLong 5)
   \<and> Sample_load (Some (PyLong 5)) = Inr (Some (Sample_sint 5))
   \<and> Pixel_load (Some (PyLong 5)) = Inr (Some \<lparr>dataType = DT_SINT64, samples = [Sample_sint 5]\<rparr>)
   \<and> Pixel_load (Some (PyTuple [PyLong 1, PyLong 2])) = Inr None"
  using Pixel_load_scalar [of "PyLong 5" "[PyLong 1, PyLong 2]" True 0 0 0 0]
  by (simp add: Sample_load_def store_def cast_to_def fits_ssize_t_def)

section \<open>ImageOrPixel\<close>

text \<open>
  C4: the resolver returns the Image of the external converter when that converter loads
  the input; when it does not, and the Pixel caster loads the input, the resolver returns
  the Image built from that Pixel; when both return false the resolver throws the run-time
  error that names \<^verbatim>\<open>dip::Image\<close>, and, the external converter not throwing, it throws
  that error only then. The integer 5, which the external converter does not load, gives
  the Image built from the Pixel of the one integer sample 5.
\<close>

theorem ImageOrPixel_resolves:
  "(image_load (Some obj) = Inr (Some img) \<longrightarrow>
      ImageOrPixel image_load Image_of_Pixel obj = Inr img)
   \<and> (image_load (Some obj) = Inr None \<and> Pixel_load (Some obj) = Inr (Some p) \<longrightarrow>
        ImageOrPixel image_load Image_of_Pixel obj = Inr (Image_of_Pixel p))
   \<and> (image_load (Some obj) = Inr None \<and> Pixel_load (Some obj) = Inr None \<longrightarrow>
        ImageOrPixel image_load Image_of_Pixel obj =
          Inl (RunTimeError ''Cannot convert input to dip::Image''))
   \<and> ((\<forall>e. image_load (Some obj) \<noteq> Inl e) \<and>
        ImageOrPixel image_load Image_of_Pixel obj =
          Inl (RunTimeError ''Cannot convert input to dip::Image'') \<longrightarrow>
        image_load (Some obj) = Inr None \<and> Pixel_load (Some obj) = Inr None)
   \<and> (image_load (Some (PyLong 5)) = Inr None \<longrightarrow>
        ImageOrPixel image_load Image_of_Pixel (PyLong 5) =
          Inr (Image_of_Pixel \<lparr>dataType = DT_SINT64, samples = [Sample_sint 5]\<rparr>))"
proof -
  let ?msg = "RunTimeError ''Cannot convert input to dip::Image''"
  have five: "Pixel_load (Some (PyLong 5)) =
      Inr (Some \<lparr>dataType = DT_SINT64, samples = [Sample_sint 5]\<rparr>)"
    by (simp add: Pixel_load_def Sample_load_def store_def cast_to_def fits_ssize_t_def
        Pixel_of_Sample_def)
  have c1: "ImageOrPixel image_load Image_of_Pixel obj = Inr img"
    if "image_load (Some obj) = Inr (Some img)"
    using that by (simp add: ImageOrPixel_def)
  have c2: "ImageOrPixel image_load Image_of_Pixel ob = Inr (Image_of_Pixel q)"
    if "image_load (Some ob) = Inr None" "Pixel_load (Some ob) = Inr (Some q)" for ob q
    using that by (simp add: ImageOrPixel_def)
  have c3: "ImageOrPixel image_load Image_of_Pixel obj = Inl ?msg"
    if "image_load (Some obj) = Inr None" "Pixel_load (Some obj) = Inr None"
    using that by (simp add: ImageOrPixel_def)
  have c4: "image_load (Some obj) = Inr None \<and> Pixel_load (Some obj) = Inr None"
    if no_throw: "\<forall>e. image_load (Some obj) \<noteq> Inl e"
      and res: "ImageOrPixel image_load Image_of_Pixel obj = Inl ?msg"
  proof (cases "image_load (Some obj)")
    case (Inl e)
    with no_throw show ?thesis by simp
  next
    case (Inr r)
    show ?thesis
    proof (cases r)
      case (Some img)
      with Inr res show ?thesis by (simp add: ImageOrPixel_def)
    next
      case None
      show ?thesis
      proof (cases "Pixel_load (Some obj)")
        case (Inl e)
        then have "e = cast_error" by (rule Pixel_load_throws)
        with Inl Inr None res show ?thesis by (simp add: ImageOrPixel_def)
      next
        case (Inr q)
        with \<open>image_load (Some obj) = Inr r\<close> None res show ?thesis
          by (cases q) (simp_all add: ImageOrPixel_def)
      qed
    qed
  qed
  from c1 c2 [of obj p] c2 [of "PyLong 5", OF _ five] c3 c4 show ?thesis by blast
qed

theorem ImageOrPixel_resolves_witness:
  "ImageOrPixel (\<lambda>src. Inr None) (\<lambda>p. p) (PyLong 5) =
     Inr \<lparr>dataType = DT_SINT64, samples = [Sample_sint 5]\<rparr>
   \<and> Pixel_load (Some (PyStr ''not-an-image'')) = Inr None
   \<and> ImageOrPixel (\<lambda>src. Inr None) (\<lambda>p. p) (PyStr ''not-an-image'') =
     Inl (RunTimeError ''Cannot convert input to dip::Image'')
   \<and> ImageOrPixel (\<lambda>src. Inr (Some \<lparr>dataType = DT_BIN, samples = [Sample_bin True]\<rparr>))
       (\<lambda>p. p) (PyLong 5) =
     Inr \<lparr>dataType = DT_BIN, samples = [Sample_bin True]\<rparr>"
  using ImageOrPixel_resolves [of "\<lambda>src. Inr None" "PyLong 5" _ "\<lambda>p. p"]
    ImageOrPixel_resolves [of "\<lambda>src. Inr None" "PyStr ''not-an-image''" _ "\<lambda>p. p"]
    ImageOrPixel_resolves
      [of "\<lambda>src. Inr (Some \<lparr>dataType = DT_BIN, samples = [Sample_bin True]\<rparr>)" "PyLong 5"
        "\<lparr>dataType = DT_BIN, samples = [Sample_bin True]\<rparr>" "\<lambda>p. p"]
  by (simp add: Pixel_load_def Sample_load_def)

end
